theory Spec2Isabelle
  imports Complex_Main
begin

section \<open>Python values used by \<open>vgit/animations/push.py\<close>\<close>

subsection \<open>Errors\<close>

text \<open>
  Every exception the module can raise is a value; the string is the text that
  \<open>str(e)\<close> gives, which \<open>run_full_course\<close> prints in its handler.
  \<open>KeyError\<close> carries the missing key.  \<open>KeyboardInterrupt\<close> is an asynchronous
  signal of the host process and is not part of the model.
\<close>

datatype py_error =
    KeyError string
  | ZeroDivisionError string
  | ValueError string
  | EOFError string

subsection \<open>Strings\<close>

text \<open>
  A Python \<open>str\<close> is modelled by its UTF-8 encoding, the bytes that reach the
  terminal.  The characters a string literal cannot hold are named.
\<close>

definition nl :: string where "nl = [CHR 0x0A]"
definition cr :: string where "cr = [CHR 0x0D]"
definition sq :: string where "sq = [CHR 0x27]"
definition dq :: string where "dq = [CHR 0x22]"

text \<open>
  The non-ASCII text of the source file.  The file stores each glyph as a short
  sequence of code points (for the filled bar cell: U+00E2 U+2013 U+02C6); the constants
  below are the UTF-8 bytes of exactly those sequences.
\<close>

definition glyph_full :: string where
  "glyph_full = [CHR 0xC3, CHR 0xA2, CHR 0xE2, CHR 0x80, CHR 0x93, CHR 0xCB, CHR 0x86]"
definition glyph_light :: string where
  "glyph_light = [CHR 0xC3, CHR 0xA2, CHR 0xE2, CHR 0x80, CHR 0x93, CHR 0xE2, CHR 0x80, CHR 0x98]"
definition glyph_check :: string where
  "glyph_check = [CHR 0xC3, CHR 0xA2, CHR 0xC5, CHR 0x93, CHR 0xE2, CHR 0x80, CHR 0x9C]"
definition glyph_cross :: string where
  "glyph_cross = [CHR 0xC3, CHR 0xA2, CHR 0xC5, CHR 0x93, CHR 0xE2, CHR 0x80, CHR 0x94]"
definition glyph_down :: string where
  "glyph_down = [CHR 0xC3, CHR 0xA2, CHR 0xE2, CHR 0x80, CHR 0xA0, CHR 0xE2, CHR 0x80, CHR 0x9C]"
definition glyph_right :: string where
  "glyph_right = [CHR 0xC3, CHR 0xA2, CHR 0xE2, CHR 0x80, CHR 0xA0, CHR 0xE2, CHR 0x80, CHR 0x99]"
definition glyph_bullet :: string where
  "glyph_bullet = [CHR 0xC3, CHR 0xA2, CHR 0xE2, CHR 0x82, CHR 0xAC, CHR 0xC2, CHR 0xA2]"
definition glyph_cap :: string where
  "glyph_cap = [CHR 0xC3, CHR 0xB0, CHR 0xC5, CHR 0xB8, CHR 0xC5, CHR 0xBD,
                CHR 0xE2, CHR 0x80, CHR 0x9C]"
definition glyph_page :: string where
  "glyph_page = [CHR 0xC3, CHR 0xB0, CHR 0xC5, CHR 0xB8, CHR 0xE2, CHR 0x80, CHR 0x9C,
                 CHR 0xE2, CHR 0x80, CHR 0x9E]"
definition glyph_party :: string where
  "glyph_party = [CHR 0xC3, CHR 0xB0, CHR 0xC5, CHR 0xB8, CHR 0xC5, CHR 0xBD,
                  CHR 0xE2, CHR 0x80, CHR 0xB0]"

text \<open>\<open>for char in text\<close> visits code points: a lead byte with its continuation bytes.\<close>

definition is_cont :: "char \<Rightarrow> bool" where
  "is_cont c = (128 \<le> (of_char c :: nat) \<and> (of_char c :: nat) < 192)"

function codepoints :: "string \<Rightarrow> string list" where
  "codepoints [] = []"
| "codepoints (c # cs) = (c # takeWhile is_cont cs) # codepoints (dropWhile is_cont cs)"
  by pat_completeness auto
termination
  by (relation "measure length") (auto simp: le_imp_less_Suc length_dropWhile_le)

declare codepoints.simps [simp del]

text \<open>\<open>s * n\<close> on a string: \<open>n\<close> copies, none when \<open>n\<close> is negative.\<close>

definition str_mul :: "string \<Rightarrow> int \<Rightarrow> string" where
  "str_mul s n = concat (replicate (nat n) s)"

text \<open>\<open>str(n)\<close> for an integer, as an f-string interpolates it.\<close>

definition digit_char :: "nat \<Rightarrow> char" where
  "digit_char d = char_of (48 + d)"

fun str_nat :: "nat \<Rightarrow> string" where
  "str_nat n = (if n < 10 then [digit_char n] else str_nat (n div 10) @ [digit_char (n mod 10)])"

declare str_nat.simps [simp del]

definition str_int :: "int \<Rightarrow> string" where
  "str_int i = (if i < 0 then ''-'' @ str_nat (nat (- i)) else str_nat (nat i))"

text \<open>\<open>needle in haystack\<close> on strings.\<close>

fun contains :: "string \<Rightarrow> string \<Rightarrow> bool" where
  "contains [] needle = (needle = [])"
| "contains (c # cs) needle = (take (length needle) (c # cs) = needle \<or> contains cs needle)"

subsection \<open>Floats\<close>

text \<open>
  A Python \<open>float\<close> is an IEEE 754 double.  The finite doubles are rationals, and every
  arithmetic operation returns the double nearest to the exact result, ties to the even
  significand: \<open>fl\<close>.  The significand has 53 bits and the least exponent of a unit in
  the last place is \<open>-1074\<close>.  The quotients and products of the program (speeds \<open>1.0\<close> and
  \<open>3.0\<close>, ratios between 0 and 1) are far below the largest double, so infinities are not
  modelled.
\<close>

type_synonym pyfloat = rat

fun bit_length :: "nat \<Rightarrow> nat" where
  "bit_length n = (if n = 0 then 0 else Suc (bit_length (n div 2)))"

declare bit_length.simps [simp del]

definition pow2 :: "int \<Rightarrow> rat" where
  "pow2 e = (if 0 \<le> e then 2 ^ nat e else 1 / 2 ^ nat (- e))"

text \<open>For \<open>0 < q\<close>, the exponent \<open>k\<close> with \<open>2 ^ k \<le> q < 2 ^ (k + 1)\<close>.\<close>

definition ilog2 :: "rat \<Rightarrow> int" where
  "ilog2 q = (if 1 \<le> q then int (bit_length (nat \<lfloor>q\<rfloor>)) - 1
              else - int (bit_length (nat (\<lceil>1 / q\<rceil> - 1))))"

definition round_half_even :: "rat \<Rightarrow> int" where
  "round_half_even x =
     (let f = \<lfloor>x\<rfloor>; r = x - of_int f
      in if r < 1 / 2 then f else if 1 / 2 < r then f + 1 else if even f then f else f + 1)"

definition fl :: "rat \<Rightarrow> pyfloat" where
  "fl q = (if q = 0 then 0
           else let a = \<bar>q\<bar>; e = max (ilog2 a - 52) (- 1074)
                in sgn q * of_int (round_half_even (a / pow2 e)) * pow2 e)"

text \<open>\<open>int(x)\<close> on a float truncates towards zero.\<close>

definition trunc :: "pyfloat \<Rightarrow> int" where
  "trunc x = (if 0 \<le> x then \<lfloor>x\<rfloor> else \<lceil>x\<rceil>)"

subsection \<open>ANSI colours (class \<open>Color\<close>)\<close>

definition esc :: string where "esc = [CHR 0x1B]"

definition Color_RED :: string where "Color_RED = esc @ ''[91m''"
definition Color_GREEN :: string where "Color_GREEN = esc @ ''[92m''"
definition Color_YELLOW :: string where "Color_YELLOW = esc @ ''[93m''"
definition Color_BLUE :: string where "Color_BLUE = esc @ ''[94m''"
definition Color_MAGENTA :: string where "Color_MAGENTA = esc @ ''[95m''"
definition Color_CYAN :: string where "Color_CYAN = esc @ ''[96m''"
definition Color_WHITE :: string where "Color_WHITE = esc @ ''[97m''"
definition Color_BOLD :: string where "Color_BOLD = esc @ ''[1m''"
definition Color_END :: string where "Color_END = esc @ ''[0m''"

section \<open>The simulated repository\<close>

record commit =
  hash :: string
  message :: string
  author :: string
  timestamp :: string

text \<open>
  \<open>Branch.commits\<close> is a Python list object, mutated in place by \<open>append\<close> and
  duplicated by \<open>copy\<close>.  A branch therefore holds the address of its list; the lists
  live in the heap of the world below.
\<close>

record branch =
  bname :: string
  commits :: nat
  is_current :: bool

text \<open>
  \<open>branches\<close> is a \<open>dict\<close>: an association list in insertion order, one entry per key.
\<close>

record repository =
  name :: string
  branches :: "(string \<times> branch) list"
  current_branch :: string
  staged_files :: "string list"
  working_files :: "string list"
  remote_url :: string
  is_initialized :: bool

definition GitRepository :: "string \<Rightarrow> repository" where
  "GitRepository nm =
     \<lparr>name = nm, branches = [], current_branch = ''main'', staged_files = [],
      working_files = [], remote_url = ''https://github.com/user/'' @ nm @ ''.git'',
      is_initialized = False\<rparr>"

text \<open>\<open>d[k] = v\<close>: an existing key keeps its position, a new key goes last.\<close>

fun dict_set :: "('k \<times> 'v) list \<Rightarrow> 'k \<Rightarrow> 'v \<Rightarrow> ('k \<times> 'v) list" where
  "dict_set [] k v = [(k, v)]"
| "dict_set ((k', v') # kvs) k v =
     (if k' = k then (k, v) # kvs else (k', v') # dict_set kvs k v)"

section \<open>The world: console, heap, and the sources of nondeterminism\<close>

datatype event = Write string | Flush | Sleep pyfloat

text \<open>
  \<open>console\<close> is everything done to the terminal so far, oldest first.  \<open>heap\<close> maps the
  address of a commit list to its contents and \<open>next_addr\<close> is the first unused address.
  \<open>entropy\<close> is the stream \<open>random.choices\<close> draws from, \<open>clock\<close> the successive results
  of \<open>time.strftime\<close>, \<open>stdin\<close> the lines still to be read by \<open>input\<close>.
\<close>

record world =
  console :: "event list"
  heap :: "nat \<Rightarrow> commit list"
  next_addr :: nat
  entropy :: "nat \<Rightarrow> nat"
  draws :: nat
  clock :: "nat \<Rightarrow> string"
  ticks :: nat
  stdin :: "string list"

text \<open>A statement either raises or returns a value, and leaves a state behind in both cases.\<close>

type_synonym ('s, 'a) prog = "'s \<Rightarrow> (py_error + 'a) \<times> 's"

definition ret :: "'a \<Rightarrow> ('s, 'a) prog" where
  "ret x s = (Inr x, s)"

definition raise_py :: "py_error \<Rightarrow> ('s, 'a) prog" where
  "raise_py e s = (Inl e, s)"

definition bind_py :: "('s, 'a) prog \<Rightarrow> ('a \<Rightarrow> ('s, 'b) prog) \<Rightarrow> ('s, 'b) prog" where
  "bind_py m f s = (case m s of (Inl e, s') \<Rightarrow> (Inl e, s') | (Inr x, s') \<Rightarrow> f x s')"

definition then_py :: "('s, unit) prog \<Rightarrow> ('s, 'b) prog \<Rightarrow> ('s, 'b) prog" where
  "then_py m k = bind_py m (\<lambda>_. k)"

text \<open>A block of statements, and a \<open>for\<close> loop over a list.\<close>

fun block :: "('s, unit) prog list \<Rightarrow> ('s, unit) prog" where
  "block [] = ret ()"
| "block (m # ms) = then_py m (block ms)"

fun for_each :: "'a list \<Rightarrow> ('a \<Rightarrow> ('s, unit) prog) \<Rightarrow> ('s, unit) prog" where
  "for_each [] body = ret ()"
| "for_each (x # xs) body = then_py (body x) (for_each xs body)"

definition py_range :: "int \<Rightarrow> int list" where
  "py_range n = map int [0..<nat n]"

subsection \<open>Console and clock primitives\<close>

definition emit :: "event \<Rightarrow> (world, unit) prog" where
  "emit e w = (Inr (), w\<lparr>console := console w @ [e]\<rparr>)"

definition stdout_write :: "string \<Rightarrow> (world, unit) prog" where
  "stdout_write s = emit (Write s)"

definition flush :: "(world, unit) prog" where
  "flush = emit Flush"

definition py_print :: "string \<Rightarrow> (world, unit) prog" where
  "py_print s = stdout_write (s @ nl)"

definition sleep :: "pyfloat \<Rightarrow> (world, unit) prog" where
  "sleep d = (if d < 0 then raise_py (ValueError ''sleep length must be non-negative'')
              else emit (Sleep d))"

definition input :: "string \<Rightarrow> (world, string) prog" where
  "input prompt =
     then_py (stdout_write prompt)
       (\<lambda>w. case stdin w of
               [] \<Rightarrow> (Inl (EOFError ''EOF when reading a line''), w)
             | l # ls \<Rightarrow> (Inr l, w\<lparr>stdin := ls\<rparr>))"

text \<open>\<open>x / y\<close> on two floats, and on two integers (true division, correctly rounded).\<close>

definition float_div :: "pyfloat \<Rightarrow> pyfloat \<Rightarrow> ('s, pyfloat) prog" where
  "float_div x y = (if y = 0 then raise_py (ZeroDivisionError ''float division by zero'')
                    else ret (fl (x / y)))"

definition int_truediv :: "int \<Rightarrow> int \<Rightarrow> ('s, pyfloat) prog" where
  "int_truediv i n = (if n = 0 then raise_py (ZeroDivisionError ''division by zero'')
                      else ret (fl (of_int i / of_int n)))"

section \<open>class \<open>GitAnimator\<close>\<close>

record git_animator =
  speed :: pyfloat
  delay :: pyfloat

text \<open>\<open>__init__\<close>: \<open>delay\<close> is computed once, from the speed given to the constructor.\<close>

definition GitAnimator :: "pyfloat \<Rightarrow> ('s, git_animator) prog" where
  "GitAnimator sp =
     bind_py (float_div (fl (1 / 2)) sp) (\<lambda>d. ret \<lparr>speed = sp, delay = d\<rparr>)"

definition typewriter :: "git_animator \<Rightarrow> string \<Rightarrow> string \<Rightarrow> (world, unit) prog" where
  "typewriter self text color =
     then_py
       (for_each (codepoints text) (\<lambda>ch.
          block [stdout_write (color @ ch @ Color_END),
                 flush,
                 bind_py (float_div (fl (3 / 100)) (speed self)) sleep]))
       (py_print [])"

text \<open>One frame of the progress bar, for the float \<open>progress\<close> (lines 93 to 97).\<close>

definition frame_text :: "string \<Rightarrow> pyfloat \<Rightarrow> string" where
  "frame_text description progress =
     (let bar_length = 30;
          filled = trunc (fl (of_int bar_length * progress));
          bar = str_mul glyph_full filled @ str_mul glyph_light (bar_length - filled);
          percent = trunc (fl (progress * 100))
      in cr @ Color_CYAN @ description @ '': '' @ Color_GREEN @ ''['' @ bar @ ''] ''
         @ str_int percent @ ''%'' @ Color_END)"

definition progress_bar :: "git_animator \<Rightarrow> int \<Rightarrow> string \<Rightarrow> (world, unit) prog" where
  "progress_bar self steps description =
     then_py
       (for_each (py_range (steps + 1)) (\<lambda>i.
          bind_py (int_truediv i steps) (\<lambda>progress.
            block [stdout_write (frame_text description progress),
                   flush,
                   sleep (delay self)])))
       (py_print [])"

definition commit_flow :: "git_animator \<Rightarrow> commit \<Rightarrow> (world, unit) prog" where
  "commit_flow self c =
     block
       [py_print (nl @ Color_YELLOW @ ''Creating commit...'' @ Color_END),
        sleep (delay self),
        py_print (Color_GREEN @ glyph_check @ Color_END @ '' Commit '' @ Color_BOLD @ hash c
                  @ Color_END),
        py_print (''  Author: '' @ Color_CYAN @ author c @ Color_END),
        py_print (''  Date: '' @ timestamp c),
        py_print (''  Message: '' @ Color_WHITE @ message c @ Color_END),
        for_each (enumerate 0 [''Working Directory'', ''Staging Area'', ''Local Repository''])
          (\<lambda>(i, stage).
             block [if 0 < i then py_print (Color_GREEN @ ''    '' @ glyph_down @ Color_END)
                    else ret (),
                    py_print (''  '' @ Color_BOLD @ stage @ Color_END),
                    sleep (delay self)])]"

definition push_animation ::
  "git_animator \<Rightarrow> int \<Rightarrow> string \<Rightarrow> string \<Rightarrow> (world, unit) prog" where
  "push_animation self n remote br =
     block
       [py_print (nl @ Color_MAGENTA @ ''Pushing '' @ str_int n @ '' commit(s) to '' @ remote
                  @ ''/'' @ br @ ''...'' @ Color_END),
        progress_bar self 3 ''Establishing connection'',
        for_each (py_range n) (\<lambda>i.
          block [stdout_write (cr @ Color_CYAN @ ''Uploading commit '' @ str_int (i + 1) @ ''/''
                               @ str_int n @ '' ''),
                 for_each (py_range 3) (\<lambda>j.
                   block [stdout_write (Color_GREEN @ glyph_right @ Color_END),
                          flush,
                          bind_py (float_div (delay self) 3) sleep])]),
        py_print (nl @ Color_GREEN @ glyph_check @ '' Push completed successfully!''
                  @ Color_END),
        py_print (''  '' @ glyph_right @ '' '' @ Color_BLUE @ remote @ ''/'' @ br @ Color_END)]"

text \<open>The slice \<open>xs[k:]\<close>, where a negative \<open>k\<close> counts from the end.\<close>

definition slice_from :: "int \<Rightarrow> 'a list \<Rightarrow> 'a list" where
  "slice_from k xs =
     (let n = int (length xs);
          start = (if k < 0 then max (n + k) 0 else min k n)
      in drop (nat start) xs)"

definition branch_visualization :: "git_animator \<Rightarrow> repository \<Rightarrow> (world, unit) prog" where
  "branch_visualization self r =
     block
       [py_print (nl @ Color_BOLD @ ''Repository: '' @ name r @ Color_END),
        py_print ''Branch structure:'',
        for_each (branches r) (\<lambda>(branch_name, b).
          let current = (if branch_name = current_branch r then ''* '' else ''  '');
              color = (if branch_name = current_branch r then Color_GREEN else Color_WHITE)
          in then_py (py_print (color @ current @ branch_name @ Color_END))
               (\<lambda>w. let cs = heap w (commits b);
                         recent_commits = (if 3 < length cs then slice_from (- 3) cs else cs)
                     in for_each (rev recent_commits) (\<lambda>c.
                          py_print (''    '' @ Color_YELLOW @ hash c @ Color_END @ '' ''
                                    @ message c)) w))]"

section \<open>class \<open>GitLearningSystem\<close>\<close>

record learning_system =
  repo :: repository
  animator :: git_animator
  lessons_completed :: nat
  total_lessons :: nat

text \<open>A method of the learning system runs on the object and the world together.\<close>

record state =
  sys :: learning_system
  env :: world

definition in_env :: "(world, 'a) prog \<Rightarrow> (state, 'a) prog" where
  "in_env m s = (case m (env s) of (r, w) \<Rightarrow> (r, s\<lparr>env := w\<rparr>))"

definition anim :: "(git_animator \<Rightarrow> (world, 'a) prog) \<Rightarrow> (state, 'a) prog" where
  "anim f s = in_env (f (animator (sys s))) s"

definition modify :: "('s \<Rightarrow> 's) \<Rightarrow> ('s, unit) prog" where
  "modify f s = (Inr (), f s)"

definition set_repo :: "(repository \<Rightarrow> repository) \<Rightarrow> (state, unit) prog" where
  "set_repo f = modify (sys_update (repo_update f))"

definition complete_lesson :: "(state, unit) prog" where
  "complete_lesson = modify (sys_update (lessons_completed_update Suc))"

text \<open>\<open>d[k]\<close> raises \<open>KeyError\<close> on a missing key.\<close>

definition dict_get :: "(string \<times> 'v) list \<Rightarrow> string \<Rightarrow> ('s, 'v) prog" where
  "dict_get d k = (case map_of d k of None \<Rightarrow> raise_py (KeyError k) | Some v \<Rightarrow> ret v)"

subsection \<open>List objects\<close>

definition new_list :: "commit list \<Rightarrow> (world, nat) prog" where
  "new_list xs w =
     (Inr (next_addr w),
      w\<lparr>heap := (heap w)(next_addr w := xs), next_addr := Suc (next_addr w)\<rparr>)"

definition list_copy :: "nat \<Rightarrow> (world, nat) prog" where
  "list_copy a w = new_list (heap w a) w"

definition list_append :: "nat \<Rightarrow> commit \<Rightarrow> (world, unit) prog" where
  "list_append a c w = (Inr (), w\<lparr>heap := (heap w)(a := heap w a @ [c])\<rparr>)"

subsection \<open>\<open>GitRepository.generate_commit_hash\<close> and \<open>get_current_time\<close>\<close>

text \<open>
  \<open>random.choices(chars, k=7)\<close> makes seven independent draws; a draw selects one of the
  sixteen characters.
\<close>

definition generate_commit_hash :: "(world, string) prog" where
  "generate_commit_hash w =
     (Inr (map (\<lambda>j. ''abcdef0123456789'' ! (entropy w (draws w + j) mod 16)) [0..<7]),
      w\<lparr>draws := draws w + 7\<rparr>)"

definition get_current_time :: "(world, string) prog" where
  "get_current_time w = (Inr (clock w (ticks w)), w\<lparr>ticks := Suc (ticks w)\<rparr>)"

definition Commit :: "string \<Rightarrow> string \<Rightarrow> string \<Rightarrow> string \<Rightarrow> commit" where
  "Commit h m a t = \<lparr>hash = h, message = m, author = a, timestamp = t\<rparr>"

text \<open>A commit with a fresh hash and the current time, evaluated in that order.\<close>

definition fresh_commit :: "string \<Rightarrow> string \<Rightarrow> (world, commit) prog" where
  "fresh_commit m a =
     bind_py generate_commit_hash (\<lambda>h. bind_py get_current_time (\<lambda>t. ret (Commit h m a t)))"

subsection \<open>Construction and the lessons\<close>

definition GitLearningSystem :: "('s, learning_system) prog" where
  "GitLearningSystem =
     bind_py (GitAnimator 1) (\<lambda>a.
       ret \<lparr>repo = GitRepository ''my-project'', animator = a,
            lessons_completed = 0, total_lessons = 10\<rparr>)"

definition welcome_text :: string where
  "welcome_text =
     nl @ Color_BOLD @ Color_CYAN @ glyph_cap @ '' Welcome to Git Learning Automation! ''
     @ glyph_cap @ Color_END @ nl
     @ nl
     @ ''This interactive system will teach you Git through:'' @ nl
     @ glyph_bullet @ '' Animated command demonstrations'' @ nl
     @ glyph_bullet @ '' Hands-on practice exercises'' @ nl
     @ glyph_bullet @ '' Real-time feedback and tips'' @ nl
     @ glyph_bullet @ '' Progressive skill building'' @ nl
     @ nl
     @ ''Let'' @ sq @ ''s start your Git journey!'' @ nl"

definition welcome_intro :: "(state, unit) prog" where
  "welcome_intro = in_env (block [py_print welcome_text, sleep 2])"

definition lesson_init :: "(state, unit) prog" where
  "lesson_init =
     block
       [in_env (py_print (nl @ Color_BOLD @ ''=== Lesson 1: Repository Initialization ===''
                          @ Color_END)),
        anim (\<lambda>a. typewriter a (''Let'' @ sq @ ''s create your first Git repository!'')
                     Color_WHITE),
        in_env (py_print (nl @ Color_YELLOW @ ''$ git init'' @ Color_END)),
        anim (\<lambda>a. progress_bar a 5 ''Initializing repository''),
        set_repo (is_initialized_update (\<lambda>_. True)),
        bind_py (in_env (new_list [])) (\<lambda>l.
          set_repo (\<lambda>r. r\<lparr>branches := dict_set (branches r) ''main''
                              \<lparr>bname = ''main'', commits = l, is_current = True\<rparr>\<rparr>)),
        (\<lambda>s. in_env (py_print (Color_GREEN @ glyph_check
                                @ '' Initialized empty Git repository in ./''
                                @ name (repo (sys s)) @ ''/.git/'' @ Color_END)) s),
        complete_lesson]"

definition student :: string where
  "student = ''Student <student@example.com>''"

definition lesson_add_commit :: "(state, unit) prog" where
  "lesson_add_commit =
     (let files = [''README.md'', ''main.py'', ''requirements.txt''] in
      block
        [in_env (py_print (nl @ Color_BOLD @ ''=== Lesson 2: Adding and Committing Files ===''
                           @ Color_END)),
         set_repo (\<lambda>r. r\<lparr>working_files := working_files r @ files\<rparr>),
         anim (\<lambda>a. typewriter a ''Files created in working directory:'' Color_WHITE),
         in_env (for_each files (\<lambda>f.
           py_print (''  '' @ Color_CYAN @ glyph_page @ '' '' @ f @ Color_END))),
         in_env (py_print (nl @ Color_YELLOW @ ''$ git add .'' @ Color_END)),
         anim (\<lambda>a. progress_bar a 3 ''Staging files''),
         set_repo (\<lambda>r. r\<lparr>staged_files := files\<rparr>),
         in_env (py_print (nl @ Color_YELLOW @ ''$ git commit -m '' @ dq @ ''Initial commit''
                           @ dq @ Color_END)),
         bind_py (in_env (fresh_commit ''Initial commit'' student)) (\<lambda>c.
           block
             [anim (\<lambda>a. commit_flow a c),
              (\<lambda>s. bind_py (dict_get (branches (repo (sys s))) ''main'')
                      (\<lambda>b. in_env (list_append (commits b) c)) s),
              complete_lesson])])"

definition lesson_branching :: "(state, unit) prog" where
  "lesson_branching =
     block
       [in_env (py_print (nl @ Color_BOLD @ ''=== Lesson 3: Branching and Merging ===''
                          @ Color_END)),
        in_env (py_print (nl @ Color_YELLOW @ ''$ git branch feature-auth'' @ Color_END)),
        anim (\<lambda>a. typewriter a (''Creating new branch '' @ sq @ ''feature-auth'' @ sq
                                @ ''...'') Color_WHITE),
        (\<lambda>s. bind_py (dict_get (branches (repo (sys s))) ''main'') (\<lambda>b.
                bind_py (in_env (list_copy (commits b))) (\<lambda>l.
                  set_repo (\<lambda>r. r\<lparr>branches := dict_set (branches r) ''feature-auth''
                                      \<lparr>bname = ''feature-auth'', commits = l,
                                       is_current = False\<rparr>\<rparr>))) s),
        in_env (py_print (nl @ Color_YELLOW @ ''$ git checkout feature-auth'' @ Color_END)),
        anim (\<lambda>a. typewriter a (''Switching to branch '' @ sq @ ''feature-auth'' @ sq
                                @ ''...'') Color_WHITE),
        set_repo (current_branch_update (\<lambda>_. ''feature-auth'')),
        bind_py (in_env (fresh_commit ''Add login functionality'' student)) (\<lambda>c1.
          bind_py (in_env (fresh_commit ''Add password validation'' student)) (\<lambda>c2.
            for_each [c1, c2] (\<lambda>c.
              block
                [in_env (sleep 1),
                 anim (\<lambda>a. commit_flow a c),
                 (\<lambda>s. bind_py (dict_get (branches (repo (sys s))) ''feature-auth'')
                         (\<lambda>b. in_env (list_append (commits b) c)) s)]))),
        (\<lambda>s. anim (\<lambda>a. branch_visualization a (repo (sys s))) s),
        complete_lesson]"

definition lesson_push :: "(state, unit) prog" where
  "lesson_push =
     block
       [in_env (py_print (nl @ Color_BOLD @ ''=== Lesson 4: Pushing to Remote ===''
                          @ Color_END)),
        (\<lambda>s. anim (\<lambda>a. typewriter a (''Remote repository: '' @ remote_url (repo (sys s)))
                            Color_WHITE) s),
        (\<lambda>s. in_env (py_print (nl @ Color_YELLOW @ ''$ git push origin ''
                                @ current_branch (repo (sys s)) @ Color_END)) s),
        (\<lambda>s. bind_py (dict_get (branches (repo (sys s))) (current_branch (repo (sys s))))
                (\<lambda>b. let commit_count = int (length (heap (env s) (commits b)))
                      in anim (\<lambda>a. push_animation a commit_count ''origin''
                                       (current_branch (repo (sys s))))) s),
        complete_lesson]"

subsection \<open>Quiz, practice mode and progress\<close>

text \<open>
  \<open>str.lower\<close> and \<open>str.strip\<close> on the answer typed at the prompt, for ASCII input:
  the letters \<open>A\<close> to \<open>Z\<close> and the white space of the ASCII range.
\<close>

definition lower_char :: "char \<Rightarrow> char" where
  "lower_char c = (let n = (of_char c :: nat) in if 65 \<le> n \<and> n \<le> 90 then char_of (n + 32) else c)"

definition is_space :: "char \<Rightarrow> bool" where
  "is_space c = (let n = (of_char c :: nat) in (9 \<le> n \<and> n \<le> 13) \<or> (28 \<le> n \<and> n \<le> 32))"

definition lower :: "string \<Rightarrow> string" where
  "lower s = map lower_char s"

definition strip :: "string \<Rightarrow> string" where
  "strip s = rev (dropWhile is_space (rev (dropWhile is_space s)))"

record question =
  q_question :: string
  q_options :: "string list"
  q_correct :: string
  q_explanation :: string

definition questions :: "question list" where
  "questions =
     [\<lparr>q_question = ''What command initializes a new Git repository?'',
       q_options = [''a) git start'', ''b) git init'', ''c) git create'', ''d) git new''],
       q_correct = ''b'',
       q_explanation = ''git init creates a new Git repository in the current directory.''\<rparr>,
      \<lparr>q_question = ''What'' @ sq @ ''s the correct order for adding and committing files?'',
       q_options = [''a) commit, then add'', ''b) add, then commit'', ''c) push, then add'',
                    ''d) merge, then commit''],
       q_correct = ''b'',
       q_explanation = ''Files must be staged with '' @ sq @ ''git add'' @ sq
         @ '' before they can be committed with '' @ sq @ ''git commit'' @ sq @ ''.''\<rparr>]"

text \<open>A \<open>for\<close> loop that carries a local variable (the score).\<close>

fun for_fold :: "'a list \<Rightarrow> 'b \<Rightarrow> ('a \<Rightarrow> 'b \<Rightarrow> ('s, 'b) prog) \<Rightarrow> ('s, 'b) prog" where
  "for_fold [] acc body = ret acc"
| "for_fold (x # xs) acc body = bind_py (body x acc) (\<lambda>acc'. for_fold xs acc' body)"

definition interactive_quiz :: "(world, nat) prog" where
  "interactive_quiz =
     then_py (py_print (nl @ Color_BOLD @ ''=== Quick Quiz ==='' @ Color_END))
       (bind_py
          (for_fold (enumerate 1 questions) 0 (\<lambda>(i, q) score.
             then_py
               (block
                  [py_print (nl @ Color_CYAN @ ''Question '' @ str_int (int i) @ '': ''
                             @ q_question q @ Color_END),
                   for_each (q_options q) (\<lambda>option. py_print (''  '' @ option))])
               (bind_py (input (nl @ Color_YELLOW @ ''Your answer: '' @ Color_END))
                  (\<lambda>line.
                     let answer = strip (lower line) in
                     bind_py
                       (if answer = q_correct q
                        then then_py (py_print (Color_GREEN @ glyph_check @ '' Correct!''
                                                @ Color_END)) (ret (score + 1))
                        else then_py (py_print (Color_RED @ glyph_cross @ '' Incorrect.''
                                                @ Color_END)) (ret score))
                       (\<lambda>score'.
                          then_py
                            (block [py_print (Color_WHITE @ ''Explanation: ''
                                              @ q_explanation q @ Color_END),
                                    sleep 2])
                            (ret score'))))))
          (\<lambda>score.
             then_py (py_print (nl @ Color_BOLD @ ''Quiz Score: '' @ str_int (int score) @ ''/''
                                @ str_int (int (length questions)) @ Color_END))
               (ret score)))"

definition simulate_status :: "(state, unit) prog" where
  "simulate_status s =
     in_env (block
       [py_print (Color_GREEN @ ''On branch '' @ current_branch (repo (sys s)) @ Color_END),
        py_print (''Your branch is up to date with '' @ sq @ ''origin/main'' @ sq @ ''.''),
        py_print (nl @ ''nothing to commit, working tree clean'')]) s"

definition simulate_log :: "(state, unit) prog" where
  "simulate_log s =
     bind_py (dict_get (branches (repo (sys s))) (current_branch (repo (sys s))))
       (\<lambda>b. in_env (\<lambda>w. for_each (rev (slice_from (- 5) (heap w (commits b))))
                            (\<lambda>c. py_print (Color_YELLOW @ hash c @ Color_END @ '' ''
                                           @ message c)) w)) s"

definition simulate_branch_list :: "(state, unit) prog" where
  "simulate_branch_list s =
     in_env (for_each (map fst (branches (repo (sys s)))) (\<lambda>branch_name.
       let current = (if branch_name = current_branch (repo (sys s)) then ''* '' else ''  '');
           color = (if branch_name = current_branch (repo (sys s)) then Color_GREEN
                    else Color_WHITE)
       in py_print (color @ current @ branch_name @ Color_END))) s"

text \<open>
  The body of \<open>simulate_diff\<close> is its docstring alone: the eight \<open>print\<close> statements that
  follow it in the file are indented at the level of the class body, not of the method.
  They run once, while the class statement is executed (\<open>class_body\<close> below), and the
  method itself does nothing.
\<close>

definition simulate_diff :: "(state, unit) prog" where
  "simulate_diff = ret ()"

definition class_body :: "(world, unit) prog" where
  "class_body =
     block
       [py_print ''diff --git a/main.py b/main.py'',
        py_print ''index 1234567..abcdefg 100644'',
        py_print ''--- a/main.py'',
        py_print ''+++ b/main.py'',
        py_print (Color_CYAN @ ''@@ -1,3 +1,4 @@'' @ Color_END),
        py_print '' def main():'',
        py_print (''     print('' @ dq @ ''Hello, World!'' @ dq @ '')''),
        py_print (Color_GREEN @ ''+    print('' @ sq @ ''Welcome to Git!'' @ sq @ '')''
                  @ Color_END)]"

definition commands_to_practice :: "(string \<times> string) list" where
  "commands_to_practice =
     [(''git status'', ''Check the status of your repository''),
      (''git log --oneline'', ''View commit history in compact format''),
      (''git branch -a'', ''List all branches''),
      (''git diff'', ''Show changes in working directory'')]"

text \<open>The dispatch of \<open>practice_mode\<close> on the command text; the first match wins.\<close>

definition simulate_command :: "string \<Rightarrow> (state, unit) prog" where
  "simulate_command cmd =
     (if contains cmd ''status'' then simulate_status
      else if contains cmd ''log'' then simulate_log
      else if contains cmd ''branch'' then simulate_branch_list
      else if contains cmd ''diff'' then simulate_diff
      else ret ())"

definition practice_mode :: "(state, unit) prog" where
  "practice_mode =
     block
       [in_env (py_print (nl @ Color_BOLD @ ''=== Practice Mode ==='' @ Color_END)),
        anim (\<lambda>a. typewriter a ''Try executing Git commands yourself!'' Color_WHITE),
        for_each commands_to_practice (\<lambda>(cmd, description).
          block
            [in_env (py_print (nl @ Color_CYAN @ ''Practice: '' @ cmd @ Color_END)),
             in_env (py_print (''Description: '' @ description)),
             in_env (bind_py (input (Color_YELLOW @ ''Press Enter to simulate this command...''
                                     @ Color_END)) (\<lambda>_. ret ())),
             simulate_command cmd])]"

text \<open>
  \<open>f"{x:.1f}"\<close>: the decimal with one digit after the point nearest to the exact value
  of the float, ties to even.
\<close>

definition fmt_1f :: "pyfloat \<Rightarrow> string" where
  "fmt_1f x =
     (let r = round_half_even (\<bar>x\<bar> * 10)
      in (if x < 0 then ''-'' else []) @ str_int (r div 10) @ ''.'' @ str_int (r mod 10))"

definition show_progress :: "(state, unit) prog" where
  "show_progress s =
     (let done_n = int (lessons_completed (sys s)); total = int (total_lessons (sys s)) in
      bind_py (int_truediv done_n total) (\<lambda>ratio.
        let progress = fl (ratio * 100) in
        then_py
          (in_env (block
             [py_print (nl @ Color_BOLD @ ''=== Your Progress ==='' @ Color_END),
              py_print (''Lessons completed: '' @ str_int done_n @ ''/'' @ str_int total),
              py_print (''Progress: '' @ fmt_1f progress @ ''%'')]))
          (bind_py (int_truediv done_n total) (\<lambda>ratio'.
             let bar_length = 20;
                 filled = trunc (fl (of_int bar_length * ratio'));
                 bar = str_mul glyph_full filled @ str_mul glyph_light (bar_length - filled)
             in in_env (py_print (Color_GREEN @ ''['' @ bar @ '']'' @ Color_END))))) s)"

text \<open>\<open>str(e)\<close>, as the handler of \<open>run_full_course\<close> prints it.\<close>

fun str_error :: "py_error \<Rightarrow> string" where
  "str_error (KeyError k) = sq @ k @ sq"
| "str_error (ZeroDivisionError m) = m"
| "str_error (ValueError m) = m"
| "str_error (EOFError m) = m"

definition run_full_course :: "(state, unit) prog" where
  "run_full_course s =
     (case
        bind_py
          (block [welcome_intro, lesson_init, lesson_add_commit, lesson_branching, lesson_push])
          (\<lambda>_. bind_py (in_env interactive_quiz) (\<lambda>quiz_score.
             block
               [practice_mode,
                show_progress,
                in_env (py_print (nl @ Color_BOLD @ Color_GREEN @ glyph_party
                                  @ '' Congratulations! '' @ glyph_party @ Color_END)),
                in_env (py_print (Color_CYAN
                                  @ ''You'' @ sq @ ''ve completed the Git Learning Automation course!''
                                  @ Color_END)),
                if 2 \<le> quiz_score
                then in_env (py_print (Color_GREEN @ ''Excellent quiz performance!''
                                       @ Color_END))
                else ret (),
                in_env (py_print (nl @ Color_YELLOW @ ''Next steps:'' @ Color_END)),
                in_env (py_print (glyph_bullet @ '' Practice with real repositories'')),
                in_env (py_print (glyph_bullet @ '' Learn advanced Git features'')),
                in_env (py_print (glyph_bullet
                                  @ '' Explore Git workflows (GitFlow, GitHub Flow)'')),
                in_env (py_print (glyph_bullet
                                  @ '' Study collaborative development practices''))])) s
      of (Inl e, s') \<Rightarrow>
           in_env (py_print (nl @ Color_RED @ ''An error occurred: '' @ str_error e
                             @ Color_END)) s'
       | (Inr u, s') \<Rightarrow> (Inr u, s'))"

section \<open>The entry point\<close>

text \<open>
  What a run of \<open>main\<close> leaves behind: how it ended, the learning system if one was
  constructed, and the world.
\<close>

type_synonym run = "(py_error + unit) \<times> learning_system option \<times> world"

definition run_on :: "learning_system \<Rightarrow> (state, unit) prog \<Rightarrow> world \<Rightarrow> run" where
  "run_on system m w = (case m \<lparr>sys = system, env = w\<rparr> of (r, s) \<Rightarrow> (r, Some (sys s), env s))"

definition with_system :: "(learning_system \<Rightarrow> world \<Rightarrow> run) \<Rightarrow> world \<Rightarrow> run" where
  "with_system k w =
     (case GitLearningSystem w of
        (Inl e, w') \<Rightarrow> (Inl e, None, w')
      | (Inr system, w') \<Rightarrow> k system w')"

text \<open>
  The builtin \<open>int\<close> is a parameter of \<open>main\<close>: all that \<open>main\<close> uses of it is its result
  on \<open>sys.argv[2]\<close>, an integer or the \<open>ValueError\<close> it raises.
\<close>

definition main :: "(string \<Rightarrow> py_error + int) \<Rightarrow> string list \<Rightarrow> world \<Rightarrow> run" where
  "main int_of argv w =
     (if 1 < length argv then
        if argv ! 1 = ''--fast'' then
          with_system (\<lambda>system.
            run_on (system\<lparr>animator := (animator system)\<lparr>speed := 3\<rparr>\<rparr>) run_full_course) w
        else if argv ! 1 = ''--lesson'' then
          (case (if 2 < length argv then int_of (argv ! 2) else Inr 1) of
             Inl e \<Rightarrow> (Inl e, None, w)
           | Inr lesson_num \<Rightarrow>
               with_system (\<lambda>system.
                 let lessons = [lesson_init, lesson_add_commit, lesson_branching, lesson_push]
                 in if 1 \<le> lesson_num \<and> lesson_num \<le> int (length lessons)
                    then run_on system (lessons ! nat (lesson_num - 1))
                    else run_on system
                           (in_env (py_print (''Lesson '' @ str_int lesson_num
                              @ '' not found. Available: 1-''
                              @ str_int (int (length lessons)))))) w)
        else
          (case py_print ''Usage: python git_learning.py [--fast] [--lesson <number>]'' w of
             (r, w') \<Rightarrow> (r, None, w'))
      else with_system (\<lambda>system. run_on system run_full_course) w)"

text \<open>Running the file as a script: the class statements, then \<open>main()\<close>.\<close>

definition script :: "(string \<Rightarrow> py_error + int) \<Rightarrow> string list \<Rightarrow> world \<Rightarrow> run" where
  "script int_of argv w =
     (case class_body w of
        (Inl e, w') \<Rightarrow> (Inl e, None, w')
      | (Inr u, w') \<Rightarrow> main int_of argv w')"

text \<open>
  \<open>int(s)\<close> on ASCII text of ordinary length: optional white space around an optional
  sign and decimal digits, where single underscores may separate digits.
\<close>

definition is_digit :: "char \<Rightarrow> bool" where
  "is_digit c = (let n = (of_char c :: nat) in 48 \<le> n \<and> n \<le> 57)"

fun digits_value :: "string \<Rightarrow> bool \<Rightarrow> int \<Rightarrow> int option" where
  "digits_value [] after_digit acc = (if after_digit then Some acc else None)"
| "digits_value (c # cs) after_digit acc =
     (if is_digit c then digits_value cs True (10 * acc + (int (of_char c) - 48))
      else if c = CHR ''_'' \<and> after_digit \<and> cs \<noteq> [] \<and> is_digit (hd cs)
           then digits_value cs False acc
      else None)"

definition py_int :: "string \<Rightarrow> py_error + int" where
  "py_int s =
     (let t = strip s;
          (neg, body) = (case t of
                           c # cs \<Rightarrow> if c = CHR ''-'' then (True, cs)
                                     else if c = CHR ''+'' then (False, cs) else (False, t)
                         | [] \<Rightarrow> (False, t))
      in case digits_value body False 0 of
           None \<Rightarrow> Inl (ValueError (''invalid literal for int() with base 10: '' @ sq @ s @ sq))
         | Some n \<Rightarrow> Inr (if neg then - n else n))"

text \<open>
  A world to run the program in: an empty console and heap, a fixed entropy stream and
  clock, and a user who answers the two quiz questions and acknowledges the four
  practice prompts.
\<close>

definition start_world :: world where
  "start_world =
     \<lparr>console = [], heap = (\<lambda>_. []), next_addr = 0, entropy = (\<lambda>n. 3 * n + 1), draws = 0,
      clock = (\<lambda>_. ''2024-01-01 12:00:00''), ticks = 0,
      stdin = [''b'', '' B '', [], [], [], []]\<rparr>"

definition default_animator :: git_animator where
  "default_animator = \<lparr>speed = 1, delay = 1 / 2\<rparr>"

text \<open>
  Two states in which lesson 3 can run.  In \<open>main_only\<close> the repository holds the branch
  \<open>main\<close> with one commit, its list at address 0, as after lessons 1 and 2.  In
  \<open>two_branches\<close> there is a second branch \<open>dev\<close> with a commit of its own, and \<open>dev\<close> is
  the current branch.
\<close>

definition first_commit :: commit where
  "first_commit = Commit ''a1b2c3d'' ''Initial commit'' student ''2024-01-01 12:00:00''"

definition main_only :: state where
  "main_only =
     \<lparr>sys = \<lparr>repo = (GitRepository ''my-project'')
                 \<lparr>branches := [(''main'', \<lparr>bname = ''main'', commits = 0, is_current = True\<rparr>)],
                  is_initialized := True\<rparr>,
             animator = default_animator, lessons_completed = 2, total_lessons = 10\<rparr>,
      env = start_world\<lparr>heap := (\<lambda>_. [])(0 := [first_commit]), next_addr := 1\<rparr>\<rparr>"

definition two_branches :: state where
  "two_branches =
     \<lparr>sys = \<lparr>repo = (GitRepository ''my-project'')
                 \<lparr>branches := [(''main'', \<lparr>bname = ''main'', commits = 0, is_current = True\<rparr>),
                               (''dev'', \<lparr>bname = ''dev'', commits = 1, is_current = False\<rparr>)],
                  current_branch := ''dev'', is_initialized := True\<rparr>,
             animator = default_animator, lessons_completed = 2, total_lessons = 10\<rparr>,
      env = start_world
              \<lparr>heap := (\<lambda>_. [])
                         (0 := [Commit ''1111111'' ''on main'' student ''2024-01-01 12:00:00''],
                          1 := [Commit ''2222222'' ''on dev'' student ''2024-01-01 12:00:00'']),
               next_addr := 2\<rparr>\<rparr>"

section \<open>Verified properties\<close>

subsection \<open>Sequencing and loops\<close>

lemma then_py_ok: "m s = (Inr (), s') \<Longrightarrow> k s' = r \<Longrightarrow> then_py m k s = r"
  by (simp add: then_py_def bind_py_def)

text \<open>
  A loop whose body only appends to the console, whatever the console holds, appends the
  outputs of its iterations in order.  The body may read the heap, which it leaves alone.
\<close>

lemma for_each_emits:
  assumes "\<And>x w. x \<in> set xs \<Longrightarrow> heap w = h \<Longrightarrow>
             body x w = (Inr (), w\<lparr>console := console w @ out x\<rparr>)"
    and "heap w = h"
  shows "for_each xs body w = (Inr (), w\<lparr>console := console w @ concat (map out xs)\<rparr>)"
  using assms
proof (induction xs arbitrary: w)
  case Nil
  then show ?case by (simp add: ret_def)
next
  case (Cons x xs)
  have step: "body x w = (Inr (), w\<lparr>console := console w @ out x\<rparr>)"
    using Cons.prems by simp
  have rest: "for_each xs body (w\<lparr>console := console w @ out x\<rparr>) =
      (Inr (), w\<lparr>console := console w @ out x @ concat (map out xs)\<rparr>)"
    using Cons.IH [of "w\<lparr>console := console w @ out x\<rparr>"] Cons.prems by simp
  show ?case by (simp add: then_py_def bind_py_def step rest)
qed

subsection \<open>The progress bar\<close>

lemma frame_step:
  assumes "n \<noteq> 0" and "0 \<le> delay self"
  shows "bind_py (int_truediv i n) (\<lambda>progress.
            block [stdout_write (frame_text d progress), flush, sleep (delay self)]) w =
         (Inr (), w\<lparr>console := console w @
            [Write (frame_text d (fl (of_int i / of_int n))), Flush, Sleep (delay self)]\<rparr>)"
  using assms
  by (simp add: int_truediv_def bind_py_def ret_def then_py_def stdout_write_def flush_def
      sleep_def emit_def)

lemma progress_bar_run:
  assumes "0 < n" and "0 \<le> delay self"
  shows "progress_bar self n d w =
     (Inr (), w\<lparr>console := console w @
        concat (map (\<lambda>i. [Write (frame_text d (fl (of_int i / of_int n))), Flush,
                           Sleep (delay self)]) (py_range (n + 1))) @ [Write nl]\<rparr>)"
proof -
  have n0: "n \<noteq> 0" using assms by simp
  have loop: "for_each (py_range (n + 1)) (\<lambda>i.
          bind_py (int_truediv i n) (\<lambda>progress.
            block [stdout_write (frame_text d progress), flush, sleep (delay self)])) w =
     (Inr (), w\<lparr>console := console w @
        concat (map (\<lambda>i. [Write (frame_text d (fl (of_int i / of_int n))), Flush,
                           Sleep (delay self)]) (py_range (n + 1)))\<rparr>)"
    by (rule for_each_emits [where h = "heap w"]) (rule frame_step [OF n0 assms(2)], rule refl)
  show ?thesis
    unfolding progress_bar_def
    by (rule then_py_ok, rule loop) (simp add: py_print_def stdout_write_def emit_def)
qed

lemma fl_one: "fl 1 = 1"
  by code_simp

text \<open>
  C1.  The claim: \<open>progress_bar\<close> called with \<open>steps = 0\<close> raises no division error,
  terminates, and emits its frame output and a final line break.  The code does the
  opposite: the loop runs once, for \<open>i = 0\<close>, and its first statement divides \<open>i\<close> by
  \<open>steps\<close>.  The call ends in \<open>ZeroDivisionError\<close> with nothing written, neither a frame
  nor the line break.
\<close>

theorem progress_bar_zero_steps_raises:
  "progress_bar self 0 description w = (Inl (ZeroDivisionError ''division by zero''), w)"
  by (simp add: progress_bar_def py_range_def int_truediv_def then_py_def bind_py_def
      raise_py_def)

subsection \<open>The other animations run to completion\<close>

lemma fl_half: "fl (1 / 2) = 1 / 2"
  by code_simp

lemma pow2_pos: "0 < pow2 e"
  by (simp add: pow2_def)

lemma round_half_even_nonneg: "0 \<le> x \<Longrightarrow> 0 \<le> round_half_even x"
  by (auto simp: round_half_even_def Let_def)

lemma fl_nonneg: "0 \<le> q \<Longrightarrow> 0 \<le> fl q"
proof (cases "q = 0")
  case True
  then show ?thesis by (simp add: fl_def)
next
  case False
  assume "0 \<le> q"
  with False have pos: "0 < q" by simp
  have "0 \<le> round_half_even (\<bar>q\<bar> / pow2 (max (ilog2 \<bar>q\<bar> - 52) (- 1074)))"
    by (rule round_half_even_nonneg) (simp add: pow2_pos less_imp_le)
  then show ?thesis
    using pos by (simp add: fl_def Let_def pow2_pos less_imp_le)
qed

lemma GitAnimator_default: "GitAnimator 1 w = (Inr default_animator, w)"
  by (simp add: GitAnimator_def float_div_def bind_py_def ret_def fl_half default_animator_def)

lemma GitLearningSystem_run:
  "GitLearningSystem w =
     (Inr \<lparr>repo = GitRepository ''my-project'', animator = default_animator,
           lessons_completed = 0, total_lessons = 10\<rparr>, w)"
  by (simp add: GitLearningSystem_def GitAnimator_default bind_py_def ret_def)

lemma typewriter_step:
  assumes "0 < speed self"
  shows "block [stdout_write (color @ ch @ Color_END), flush,
                bind_py (float_div (fl (3 / 100)) (speed self)) sleep] w =
         (Inr (), w\<lparr>console := console w @
            [Write (color @ ch @ Color_END), Flush,
             Sleep (fl (fl (3 / 100) / speed self))]\<rparr>)"
proof -
  have a: "0 \<le> fl (3 / 100)" by (rule fl_nonneg) simp
  have "0 \<le> fl (3 / 100) / speed self"
    using a assms by (rule divide_nonneg_pos)
  then have "0 \<le> fl (fl (3 / 100) / speed self)"
    by (rule fl_nonneg)
  then show ?thesis
    using assms
    by (simp add: float_div_def bind_py_def ret_def then_py_def stdout_write_def flush_def
        sleep_def emit_def)
qed

lemma typewriter_run:
  assumes "0 < speed self"
  shows "typewriter self text color w =
     (Inr (), w\<lparr>console := console w @
        concat (map (\<lambda>ch. [Write (color @ ch @ Color_END), Flush,
                            Sleep (fl (fl (3 / 100) / speed self))]) (codepoints text))
        @ [Write nl]\<rparr>)"
proof -
  have loop: "for_each (codepoints text) (\<lambda>ch.
          block [stdout_write (color @ ch @ Color_END), flush,
                 bind_py (float_div (fl (3 / 100)) (speed self)) sleep]) w =
     (Inr (), w\<lparr>console := console w @
        concat (map (\<lambda>ch. [Write (color @ ch @ Color_END), Flush,
                            Sleep (fl (fl (3 / 100) / speed self))]) (codepoints text))\<rparr>)"
    by (rule for_each_emits [where h = "heap w"]) (rule typewriter_step [OF assms], rule refl)
  show ?thesis
    unfolding typewriter_def
    by (rule then_py_ok, rule loop) (simp add: py_print_def stdout_write_def emit_def)
qed

lemma commit_flow_run:
  assumes "0 \<le> delay self"
  shows "commit_flow self c w =
     (Inr (), w\<lparr>console := console w @
        [Write (nl @ Color_YELLOW @ ''Creating commit...'' @ Color_END @ nl),
         Sleep (delay self),
         Write (Color_GREEN @ glyph_check @ Color_END @ '' Commit '' @ Color_BOLD @ hash c
                @ Color_END @ nl),
         Write (''  Author: '' @ Color_CYAN @ author c @ Color_END @ nl),
         Write (''  Date: '' @ timestamp c @ nl),
         Write (''  Message: '' @ Color_WHITE @ message c @ Color_END @ nl),
         Write (''  '' @ Color_BOLD @ ''Working Directory'' @ Color_END @ nl),
         Sleep (delay self),
         Write (Color_GREEN @ ''    '' @ glyph_down @ Color_END @ nl),
         Write (''  '' @ Color_BOLD @ ''Staging Area'' @ Color_END @ nl),
         Sleep (delay self),
         Write (Color_GREEN @ ''    '' @ glyph_down @ Color_END @ nl),
         Write (''  '' @ Color_BOLD @ ''Local Repository'' @ Color_END @ nl),
         Sleep (delay self)]\<rparr>)"
  using assms
  by (simp add: commit_flow_def then_py_def bind_py_def ret_def py_print_def stdout_write_def
      sleep_def emit_def)

subsection \<open>Push animation and branch visualization\<close>

lemma py_range_4: "py_range 4 = [0, 1, 2, 3]"
  by (simp add: py_range_def upt_rec)

lemma str_int_0: "str_int 0 = ''0''"
  by code_simp

text \<open>
  C8.  With \<open>commits = 0\<close> (and a delay that \<open>time.sleep\<close> accepts) the push animation
  returns normally.  It writes the announcement, the four frames of the connection bar and
  its line break, no upload indicator at all, and then the success line and the line naming
  \<open>remote/branch\<close>.
\<close>

theorem push_animation_no_commits:
  assumes "0 \<le> delay self"
  shows "push_animation self 0 remote br w =
    (Inr (), w\<lparr>console := console w @
       [Write (nl @ Color_MAGENTA @ ''Pushing 0 commit(s) to '' @ remote @ ''/'' @ br @ ''...''
               @ Color_END @ nl)]
       @ concat (map (\<lambda>i. [Write (frame_text ''Establishing connection'' (fl (of_int i / 3))),
                            Flush, Sleep (delay self)]) [0, 1, 2, 3])
       @ [Write nl,
          Write (nl @ Color_GREEN @ glyph_check @ '' Push completed successfully!''
                 @ Color_END @ nl),
          Write (''  '' @ glyph_right @ '' '' @ Color_BLUE @ remote @ ''/'' @ br @ Color_END
                 @ nl)]\<rparr>)"
proof -
  have bar: "\<And>w'. progress_bar self 3 ''Establishing connection'' w' =
     (Inr (), w'\<lparr>console := console w' @
        concat (map (\<lambda>i. [Write (frame_text ''Establishing connection'' (fl (of_int i / 3))),
                           Flush, Sleep (delay self)]) [0, 1, 2, 3]) @ [Write nl]\<rparr>)"
    using progress_bar_run [of 3 self "''Establishing connection''"] assms
    by (simp add: py_range_4)
  show ?thesis
    unfolding push_animation_def
    by (simp add: then_py_def bind_py_def ret_def bar py_print_def stdout_write_def emit_def
        py_range_def str_int_0)
qed

lemma py_print_run:
  "py_print t w = (Inr (), w\<lparr>console := console w @ [Write (t @ nl)]\<rparr>)"
  by (simp add: py_print_def stdout_write_def emit_def)

lemma print_each_run:
  "for_each cs (\<lambda>c. py_print (f c)) w =
     (Inr (), w\<lparr>console := console w @ map (\<lambda>c. Write (f c @ nl)) cs\<rparr>)"
proof -
  have "for_each cs (\<lambda>c. py_print (f c)) w =
     (Inr (), w\<lparr>console := console w @ concat (map (\<lambda>c. [Write (f c @ nl)]) cs)\<rparr>)"
    by (rule for_each_emits [where h = "heap w"])
       (simp_all add: py_print_def stdout_write_def emit_def)
  then show ?thesis by simp
qed

lemma last_three:
  assumes "3 < length cs"
  shows "rev (slice_from (- 3) cs) =
         [cs ! (length cs - 1), cs ! (length cs - 2), cs ! (length cs - 3)]"
proof -
  let ?n = "length cs"
  have s: "slice_from (- 3) cs = drop (?n - 3) cs"
    using assms by (simp add: slice_from_def Let_def nat_diff_distrib')
  have d1: "drop (?n - 3) cs = cs ! (?n - 3) # drop (Suc (?n - 3)) cs"
    using assms by (intro Cons_nth_drop_Suc [symmetric]) simp
  have d2: "drop (?n - 2) cs = cs ! (?n - 2) # drop (Suc (?n - 2)) cs"
    using assms by (intro Cons_nth_drop_Suc [symmetric]) simp
  have d3: "drop (?n - 1) cs = cs ! (?n - 1) # drop (Suc (?n - 1)) cs"
    using assms by (intro Cons_nth_drop_Suc [symmetric]) simp
  have e1: "Suc (?n - 3) = ?n - 2" and e2: "Suc (?n - 2) = ?n - 1" and e3: "Suc (?n - 1) = ?n"
    using assms by simp_all
  have "drop (?n - 3) cs = [cs ! (?n - 3), cs ! (?n - 2), cs ! (?n - 1)]"
    using d1 d2 d3 by (simp add: e1 e2 e3)
  then show ?thesis by (simp add: s)
qed


theorem push_animation_no_commits_witness:
  "(0 :: rat) \<le> delay default_animator
   \<and> fst (push_animation default_animator 0 ''origin'' ''main'' start_world) = Inr ()
   \<and> length (console (snd (push_animation default_animator 0 ''origin'' ''main'' start_world)))
       = 16"
  using push_animation_no_commits [of default_animator "''origin''" "''main''" start_world]
  by (simp add: default_animator_def start_world_def)

lemma branch_block_run:
  "(\<lambda>(branch_name, b).
      let current = (if branch_name = current_branch r then ''* '' else ''  '');
          color = (if branch_name = current_branch r then Color_GREEN else Color_WHITE)
      in then_py (py_print (color @ current @ branch_name @ Color_END))
           (\<lambda>w. let cs = heap w (commits b);
                     recent_commits = (if 3 < length cs then slice_from (- 3) cs else cs)
                 in for_each (rev recent_commits) (\<lambda>c.
                      py_print (''    '' @ Color_YELLOW @ hash c @ Color_END @ '' ''
                                @ message c)) w)) x w =
   (Inr (), w\<lparr>console := console w @
      (case x of (branch_name, b) \<Rightarrow>
         Write ((if branch_name = current_branch r then Color_GREEN @ ''* ''
                 else Color_WHITE @ ''  '') @ branch_name @ Color_END @ nl)
         # map (\<lambda>c. Write (''    '' @ Color_YELLOW @ hash c @ Color_END @ '' '' @ message c
                            @ nl))
             (let cs = heap w (commits b); n = length cs
              in if 3 < n then [cs ! (n - 1), cs ! (n - 2), cs ! (n - 3)] else rev cs))\<rparr>)"
  by (cases x)
     (simp add: then_py_def bind_py_def ret_def py_print_run Let_def print_each_run last_three)

lemma branch_visualization_run:
  "branch_visualization self r w =
    (Inr (), w\<lparr>console := console w @
       [Write (nl @ Color_BOLD @ ''Repository: '' @ name r @ Color_END @ nl),
        Write (''Branch structure:'' @ nl)]
       @ concat (map (\<lambda>(branch_name, b).
            Write ((if branch_name = current_branch r then Color_GREEN @ ''* ''
                    else Color_WHITE @ ''  '') @ branch_name @ Color_END @ nl)
            # map (\<lambda>c. Write (''    '' @ Color_YELLOW @ hash c @ Color_END @ '' ''
                               @ message c @ nl))
                (let cs = heap w (commits b); n = length cs
                 in if 3 < n then [cs ! (n - 1), cs ! (n - 2), cs ! (n - 3)] else rev cs))
          (branches r))\<rparr>)"
proof -
  let ?body = "\<lambda>(branch_name, b).
      let current = (if branch_name = current_branch r then ''* '' else ''  '');
          color = (if branch_name = current_branch r then Color_GREEN else Color_WHITE)
      in then_py (py_print (color @ current @ branch_name @ Color_END))
           (\<lambda>w. let cs = heap w (commits b);
                     recent_commits = (if 3 < length cs then slice_from (- 3) cs else cs)
                 in for_each (rev recent_commits) (\<lambda>c.
                      py_print (''    '' @ Color_YELLOW @ hash c @ Color_END @ '' ''
                                @ message c)) w)"
  let ?out = "\<lambda>(branch_name, b).
            Write ((if branch_name = current_branch r then Color_GREEN @ ''* ''
                    else Color_WHITE @ ''  '') @ branch_name @ Color_END @ nl)
            # map (\<lambda>c. Write (''    '' @ Color_YELLOW @ hash c @ Color_END @ '' ''
                               @ message c @ nl))
                (let cs = heap w (commits b); n = length cs
                 in if 3 < n then [cs ! (n - 1), cs ! (n - 2), cs ! (n - 3)] else rev cs)"
  have loop: "\<And>w'. heap w' = heap w \<Longrightarrow> for_each (branches r) ?body w' =
      (Inr (), w'\<lparr>console := console w' @ concat (map ?out (branches r))\<rparr>)"
  proof -
    fix w' :: world
    assume h: "heap w' = heap w"
    show "for_each (branches r) ?body w' =
      (Inr (), w'\<lparr>console := console w' @ concat (map ?out (branches r))\<rparr>)"
    proof (rule for_each_emits [where h = "heap w"])
      fix x and v :: world
      assume "heap v = heap w"
      then show "?body x v = (Inr (), v\<lparr>console := console v @ ?out x\<rparr>)"
        using branch_block_run [of r x v] by simp
    qed (rule h)
  qed
  show ?thesis
    unfolding branch_visualization_def block.simps
    apply (rule then_py_ok, rule py_print_run)
    apply (rule then_py_ok, rule py_print_run)
    apply (rule then_py_ok, rule loop)
     apply simp
    apply (simp add: ret_def)
    done
qed

text \<open>
  C7.  For every repository, the branch visualization prints its two header lines and then,
  for each branch of the mapping in insertion order, the marker line of the branch followed
  by one line per recent commit: for a branch with more than three commits exactly its last
  three, most recent first, and for a branch with at most three commits all of them, most
  recent first.
\<close>

theorem branch_visualization_recent:
  "branch_visualization self r w =
    (Inr (), w\<lparr>console := console w @
       [Write (nl @ Color_BOLD @ ''Repository: '' @ name r @ Color_END @ nl),
        Write (''Branch structure:'' @ nl)]
       @ concat (map (\<lambda>(branch_name, b).
            Write ((if branch_name = current_branch r then Color_GREEN @ ''* ''
                    else Color_WHITE @ ''  '') @ branch_name @ Color_END @ nl)
            # map (\<lambda>c. Write (''    '' @ Color_YELLOW @ hash c @ Color_END @ '' ''
                               @ message c @ nl))
                (let cs = heap w (commits b); n = length cs
                 in if 3 < n then [cs ! (n - 1), cs ! (n - 2), cs ! (n - 3)] else rev cs))
          (branches r))\<rparr>)"
  by (rule branch_visualization_run)

subsection \<open>Fast mode, practice mode and the entry point\<close>

lemma fl_zero: "fl 0 = 0"
  by (simp add: fl_def)

lemma fl_sixth: "fl (1 / 6) = 6004799503160661 / 36028797018963968"
  by code_simp

lemma py_range_2: "py_range 2 = [0, 1]"
  by (simp add: py_range_def upt_rec)

text \<open>
  C2.  The claim: every pause is the base delay divided by the speed, and in fast mode every
  delay, the per-frame delay of the progress bar included, is a third of its default value.
  In the code, \<open>delay\<close> is computed once, in the constructor, and \<open>main\<close> sets
  \<open>speed = 3.0\<close> on the animator after it has been constructed with speed \<open>1.0\<close>.  The
  course therefore runs with speed \<open>3\<close> and the default delay \<open>0.5\<close>: each frame of a
  progress bar is still followed by a pause of half a second.  Only \<open>typewriter\<close>, which
  divides by \<open>speed\<close> at each character, is faster.  An animator constructed with speed
  \<open>3.0\<close> has the delay the claim expects, the double nearest to one sixth.
\<close>

theorem fast_mode_keeps_frame_delay:
  "main int_of [prog, ''--fast''] w =
     run_on \<lparr>repo = GitRepository ''my-project'', animator = \<lparr>speed = 3, delay = 1 / 2\<rparr>,
             lessons_completed = 0, total_lessons = 10\<rparr> run_full_course w
   \<and> progress_bar \<lparr>speed = 3, delay = 1 / 2\<rparr> 1 d w =
       (Inr (), w\<lparr>console := console w @
          [Write (frame_text d 0), Flush, Sleep (1 / 2),
           Write (frame_text d 1), Flush, Sleep (1 / 2), Write nl]\<rparr>)
   \<and> GitAnimator 3 w =
       (Inr \<lparr>speed = 3, delay = 6004799503160661 / 36028797018963968\<rparr>, w)"
proof -
  have a: "main int_of [prog, ''--fast''] w =
     run_on \<lparr>repo = GitRepository ''my-project'', animator = \<lparr>speed = 3, delay = 1 / 2\<rparr>,
             lessons_completed = 0, total_lessons = 10\<rparr> run_full_course w"
    by (simp add: main_def with_system_def GitLearningSystem_run default_animator_def)
  have b: "progress_bar \<lparr>speed = 3, delay = 1 / 2\<rparr> 1 d w =
       (Inr (), w\<lparr>console := console w @
          [Write (frame_text d 0), Flush, Sleep (1 / 2),
           Write (frame_text d 1), Flush, Sleep (1 / 2), Write nl]\<rparr>)"
    using progress_bar_run [of 1 "\<lparr>speed = 3, delay = 1 / 2\<rparr>" d w]
    by (simp add: py_range_2 fl_zero fl_one)
  have c: "GitAnimator 3 w =
       (Inr \<lparr>speed = 3, delay = 6004799503160661 / 36028797018963968\<rparr>, w)"
    by (simp add: GitAnimator_def float_div_def bind_py_def ret_def fl_half fl_sixth)
  show ?thesis using a b c by blast
qed

text \<open>
  C3.  The claim: when practice mode reaches a command containing \<open>diff\<close>, the diff
  renderer prints the fixed diff block.  In the code the dispatch does reach
  \<open>simulate_diff\<close> for \<open>git diff\<close>, but the method prints nothing and leaves every part
  of the state as it was; the block is printed once, when the class statement runs.
\<close>

theorem simulate_diff_prints_nothing:
  "simulate_command ''git diff'' s = (Inr (), s)
   \<and> simulate_command ''git diff'' = simulate_diff
   \<and> class_body w = (Inr (), w\<lparr>console := console w @
        [Write (''diff --git a/main.py b/main.py'' @ nl),
         Write (''index 1234567..abcdefg 100644'' @ nl),
         Write (''--- a/main.py'' @ nl),
         Write (''+++ b/main.py'' @ nl),
         Write (Color_CYAN @ ''@@ -1,3 +1,4 @@'' @ Color_END @ nl),
         Write ('' def main():'' @ nl),
         Write (''     print('' @ dq @ ''Hello, World!'' @ dq @ '')'' @ nl),
         Write (Color_GREEN @ ''+    print('' @ sq @ ''Welcome to Git!'' @ sq @ '')''
                @ Color_END @ nl)]\<rparr>)"
proof -
  have d: "simulate_command ''git diff'' = simulate_diff"
    by (simp add: simulate_command_def)
  have c: "class_body w = (Inr (), w\<lparr>console := console w @
        [Write (''diff --git a/main.py b/main.py'' @ nl),
         Write (''index 1234567..abcdefg 100644'' @ nl),
         Write (''--- a/main.py'' @ nl),
         Write (''+++ b/main.py'' @ nl),
         Write (Color_CYAN @ ''@@ -1,3 +1,4 @@'' @ Color_END @ nl),
         Write ('' def main():'' @ nl),
         Write (''     print('' @ dq @ ''Hello, World!'' @ dq @ '')'' @ nl),
         Write (Color_GREEN @ ''+    print('' @ sq @ ''Welcome to Git!'' @ sq @ '')''
                @ Color_END @ nl)]\<rparr>)"
    by (simp add: class_body_def then_py_def bind_py_def ret_def py_print_run)
  show ?thesis using c by (simp add: d simulate_diff_def ret_def)
qed

text \<open>
  C5.  When \<open>--lesson\<close> is followed by an argument that \<open>int\<close> reads as a number outside
  \<open>1..4\<close>, \<open>main\<close> returns normally, its only output is the line
  \<open>Lesson N not found. Available: 1-4\<close>, and the learning system is exactly as the
  constructor made it: no branch, empty file lists, counter at zero.  Heap, entropy, clock
  and input are untouched, so no lesson ran.
\<close>

theorem lesson_out_of_range:
  assumes "int_of a = Inr n" and "n < 1 \<or> 4 < n"
  shows "main int_of [prog, ''--lesson'', a] w =
     (Inr (),
      Some \<lparr>repo = GitRepository ''my-project'', animator = \<lparr>speed = 1, delay = 1 / 2\<rparr>,
            lessons_completed = 0, total_lessons = 10\<rparr>,
      w\<lparr>console := console w @
           [Write (''Lesson '' @ str_int n @ '' not found. Available: 1-4'' @ nl)]\<rparr>)"
proof -
  have four: "str_int 4 = ''4''" by code_simp
  show ?thesis
    using assms
    by (auto simp add: main_def with_system_def GitLearningSystem_run default_animator_def
        run_on_def in_env_def py_print_run four)
qed

theorem lesson_out_of_range_witness:
  "py_int ''7'' = Inr 7 \<and> ((7 :: int) < 1 \<or> (4 :: int) < 7)
   \<and> fst (main py_int [''git_learning.py'', ''--lesson'', ''7''] start_world) = Inr ()
   \<and> fst (snd (main py_int [''git_learning.py'', ''--lesson'', ''7''] start_world)) =
       Some \<lparr>repo = GitRepository ''my-project'', animator = \<lparr>speed = 1, delay = 1 / 2\<rparr>,
             lessons_completed = 0, total_lessons = 10\<rparr>"
proof -
  have p: "py_int ''7'' = Inr 7" by code_simp
  show ?thesis
    using lesson_out_of_range [of py_int "''7''" 7 "''git_learning.py''" start_world] p
    by simp
qed

text \<open>
  C10.  When the argument after \<open>--lesson\<close> makes \<open>int\<close> raise \<open>ValueError\<close>, \<open>main\<close>
  ends with that error, before a learning system exists and with nothing printed.  When
  there is no argument after \<open>--lesson\<close>, \<open>main\<close> runs lesson 1 on a new system.
\<close>

theorem lesson_argument_not_integer:
  "(int_of a = Inl (ValueError m) \<longrightarrow>
      main int_of [prog, ''--lesson'', a] w = (Inl (ValueError m), None, w))
   \<and> main int_of [prog, ''--lesson''] w =
       run_on \<lparr>repo = GitRepository ''my-project'', animator = \<lparr>speed = 1, delay = 1 / 2\<rparr>,
               lessons_completed = 0, total_lessons = 10\<rparr> lesson_init w"
  by (simp add: main_def with_system_def GitLearningSystem_run default_animator_def)

theorem lesson_argument_not_integer_witness:
  "py_int ''x7'' = Inl (ValueError (''invalid literal for int() with base 10: '' @ sq @ ''x7'' @ sq))
   \<and> main py_int [''git_learning.py'', ''--lesson'', ''x7''] start_world =
       (Inl (ValueError (''invalid literal for int() with base 10: '' @ sq @ ''x7'' @ sq)),
        None, start_world)"
proof -
  have p: "py_int ''x7'' =
      Inl (ValueError (''invalid literal for int() with base 10: '' @ sq @ ''x7'' @ sq))"
    by code_simp
  show ?thesis
    using lesson_argument_not_integer [of py_int "''x7''"
        "''invalid literal for int() with base 10: '' @ sq @ ''x7'' @ sq" "''git_learning.py''"
        start_world] p
    by simp
qed

subsection \<open>Lesson 3\<close>

lemma map_of_dict_set:
  "map_of (dict_set d k v) k' = (if k' = k then Some v else map_of d k')"
  by (induction d) auto

lemma lesson_branching_raises:
  assumes "map_of (branches (repo (sys s))) ''main'' = None"
    and "0 < speed (animator (sys s))"
  shows "lesson_branching s =
     (Inl (KeyError ''main''),
      s\<lparr>env := (env s)\<lparr>console := console (env s) @
         [Write (nl @ Color_BOLD @ ''=== Lesson 3: Branching and Merging ==='' @ Color_END @ nl),
          Write (nl @ Color_YELLOW @ ''$ git branch feature-auth'' @ Color_END @ nl)]
         @ concat (map (\<lambda>ch. [Write (Color_WHITE @ ch @ Color_END), Flush,
                               Sleep (fl (fl (3 / 100) / speed (animator (sys s))))])
                    (codepoints (''Creating new branch '' @ sq @ ''feature-auth'' @ sq
                                 @ ''...'')))
         @ [Write nl]\<rparr>\<rparr>)"
  using assms
  by (simp add: lesson_branching_def then_py_def bind_py_def in_env_def anim_def py_print_run
      typewriter_run dict_get_def raise_py_def)

text \<open>
  C4.  When the branch mapping has no entry \<open>main\<close> (and the animator has a positive
  speed, as every animator of the program has), lesson 3 ends in \<open>KeyError\<close> for the key
  \<open>main\<close>.  The learning system is left exactly as it was, so no branch \<open>main\<close> has
  been created, and no list has been allocated.  From the entry point, \<open>--lesson 3\<close> runs
  lesson 3 on a new system and ends in that error.
\<close>

theorem lesson_branching_without_main:
  assumes "map_of (branches (repo (sys s))) ''main'' = None"
    and "0 < speed (animator (sys s))"
  shows "fst (lesson_branching s) = Inl (KeyError ''main'')
         \<and> sys (snd (lesson_branching s)) = sys s
         \<and> map_of (branches (repo (sys (snd (lesson_branching s))))) ''main'' = None
         \<and> heap (env (snd (lesson_branching s))) = heap (env s)
         \<and> next_addr (env (snd (lesson_branching s))) = next_addr (env s)
         \<and> (int_of a = Inr 3 \<longrightarrow>
              fst (main int_of [prog, ''--lesson'', a] w) = Inl (KeyError ''main''))"
proof -
  have m: "int_of a = Inr 3 \<longrightarrow>
      fst (main int_of [prog, ''--lesson'', a] w) = Inl (KeyError ''main'')"
  proof
    assume a: "int_of a = Inr 3"
    let ?s = "\<lparr>sys = \<lparr>repo = GitRepository ''my-project'', animator = default_animator,
                        lessons_completed = 0, total_lessons = 10\<rparr>, env = w\<rparr>"
    have "fst (lesson_branching ?s) = Inl (KeyError ''main'')"
      using lesson_branching_raises [of ?s]
      by (simp add: GitRepository_def default_animator_def)
    then show "fst (main int_of [prog, ''--lesson'', a] w) = Inl (KeyError ''main'')"
      using a
      by (simp add: main_def with_system_def GitLearningSystem_run run_on_def case_prod_beta)
  qed
  show ?thesis
    using lesson_branching_raises [OF assms] assms(1) m by simp
qed


theorem lesson_branching_without_main_witness:
  "map_of (branches (repo (sys \<lparr>sys = \<lparr>repo = GitRepository ''my-project'',
        animator = default_animator, lessons_completed = 0, total_lessons = 10\<rparr>,
        env = start_world\<rparr>))) ''main'' = None
   \<and> (0 :: rat) < speed default_animator
   \<and> py_int ''3'' = Inr 3
   \<and> fst (lesson_branching \<lparr>sys = \<lparr>repo = GitRepository ''my-project'',
        animator = default_animator, lessons_completed = 0, total_lessons = 10\<rparr>,
        env = start_world\<rparr>) = Inl (KeyError ''main'')
   \<and> fst (main py_int [''git_learning.py'', ''--lesson'', ''3''] start_world) =
       Inl (KeyError ''main'')"
proof -
  have p: "py_int ''3'' = Inr 3" by code_simp
  show ?thesis
    using lesson_branching_without_main [of "\<lparr>sys = \<lparr>repo = GitRepository ''my-project'',
        animator = default_animator, lessons_completed = 0, total_lessons = 10\<rparr>,
        env = start_world\<rparr>" py_int "''3''" "''git_learning.py''" start_world] p
    by (simp add: GitRepository_def default_animator_def)
qed

lemma lesson_branching_run:
  assumes "map_of (branches (repo (sys s))) ''main'' = Some mb"
    and "commits mb < next_addr (env s)"
    and "0 < speed (animator (sys s))"
    and "0 \<le> delay (animator (sys s))"
  shows
    "let w = env s; l = next_addr w; old = heap w (commits mb);
         c1 = Commit (map (\<lambda>j. ''abcdef0123456789'' ! (entropy w (draws w + j) mod 16)) [0..<7])
                ''Add login functionality'' student (clock w (ticks w));
         c2 = Commit (map (\<lambda>j. ''abcdef0123456789'' ! (entropy w (draws w + 7 + j) mod 16))
                        [0..<7])
                ''Add password validation'' student (clock w (Suc (ticks w)));
         s' = snd (lesson_branching s)
     in fst (lesson_branching s) = Inr ()
        \<and> map_of (branches (repo (sys s'))) ''main'' = Some mb
        \<and> heap (env s') (commits mb) = old
        \<and> map_of (branches (repo (sys s'))) ''feature-auth'' =
            Some \<lparr>bname = ''feature-auth'', commits = l, is_current = False\<rparr>
        \<and> l \<noteq> commits mb
        \<and> heap (env s') l = old @ [c1, c2]
        \<and> current_branch (repo (sys s')) = ''feature-auth''
        \<and> lessons_completed (sys s') = Suc (lessons_completed (sys s))"
  using assms
  by (simp add: Let_def lesson_branching_def then_py_def bind_py_def ret_def in_env_def anim_def
      py_print_run typewriter_run commit_flow_run branch_visualization_run dict_get_def
      set_repo_def modify_def complete_lesson_def list_copy_def new_list_def list_append_def
      fresh_commit_def generate_commit_hash_def get_current_time_def sleep_def emit_def
      map_of_dict_set Commit_def)

text \<open>
  C6.  The claim: a new branch is seeded with a by-value copy of the commit sequence of the
  current branch, and appends to the new branch leave the source sequence unchanged.
  Lesson 3 is the only code that creates a branch from another, and it names its source:
  \<open>self.repo.branches["main"]\<close>.  In a repository whose current branch is \<open>dev\<close>, the new
  branch starts from the commits of \<open>main\<close>, not from those of \<open>dev\<close>.
\<close>

theorem lesson_branching_copies_main_not_current:
  "fst (lesson_branching two_branches) = Inr ()
   \<and> current_branch (repo (sys two_branches)) = ''dev''
   \<and> map_of (branches (repo (sys two_branches))) ''dev'' =
       Some \<lparr>bname = ''dev'', commits = 1, is_current = False\<rparr>
   \<and> map message (heap (env two_branches) 1) = [''on dev'']
   \<and> map_of (branches (repo (sys (snd (lesson_branching two_branches))))) ''feature-auth'' =
       Some \<lparr>bname = ''feature-auth'', commits = 2, is_current = False\<rparr>
   \<and> map message (heap (env (snd (lesson_branching two_branches))) 2) =
       [''on main'', ''Add login functionality'', ''Add password validation'']
   \<and> take 1 (heap (env (snd (lesson_branching two_branches))) 2) \<noteq>
       heap (env two_branches) 1"
  using lesson_branching_run
    [of two_branches "\<lparr>bname = ''main'', commits = 0, is_current = True\<rparr>"]
  by (simp add: two_branches_def GitRepository_def default_animator_def start_world_def
      Let_def Commit_def)

text \<open>
  C6, as the code has it.  Lesson 3 forks \<open>feature-auth\<close> from \<open>main\<close>.  The new branch
  holds a list of its own, at a fresh address, whose contents at creation are those of the
  list of \<open>main\<close>.  After the two commits have been appended to it, the new list is the
  old contents of \<open>main\<close> followed by the two commits, and the list of \<open>main\<close> is what it
  was before the lesson.  When the current branch is \<open>main\<close>, as in every run from the
  entry point, this is the commit sequence of the current branch.
\<close>

theorem lesson_branching_forks_by_value:
  assumes "map_of (branches (repo (sys s))) ''main'' = Some mb"
    and "commits mb < next_addr (env s)"
    and "0 < speed (animator (sys s))"
    and "0 \<le> delay (animator (sys s))"
  shows
    "let w = env s; l = next_addr w; old = heap w (commits mb);
         c1 = Commit (map (\<lambda>j. ''abcdef0123456789'' ! (entropy w (draws w + j) mod 16)) [0..<7])
                ''Add login functionality'' student (clock w (ticks w));
         c2 = Commit (map (\<lambda>j. ''abcdef0123456789'' ! (entropy w (draws w + 7 + j) mod 16))
                        [0..<7])
                ''Add password validation'' student (clock w (Suc (ticks w)));
         s' = snd (lesson_branching s)
     in fst (lesson_branching s) = Inr ()
        \<and> map_of (branches (repo (sys s'))) ''main'' = Some mb
        \<and> heap (env s') (commits mb) = old
        \<and> map_of (branches (repo (sys s'))) ''feature-auth'' =
            Some \<lparr>bname = ''feature-auth'', commits = l, is_current = False\<rparr>
        \<and> l \<noteq> commits mb
        \<and> heap (env s') l = old @ [c1, c2]
        \<and> current_branch (repo (sys s')) = ''feature-auth''
        \<and> lessons_completed (sys s') = Suc (lessons_completed (sys s))
        \<and> (current_branch (repo (sys s)) = ''main'' \<longrightarrow>
             (\<exists>cb. map_of (branches (repo (sys s))) (current_branch (repo (sys s))) = Some cb
                   \<and> heap (env s') l = heap (env s) (commits cb) @ [c1, c2]
                   \<and> heap (env s') (commits cb) = heap (env s) (commits cb)))"
  using lesson_branching_run [OF assms] assms(1)
  by (simp add: Let_def)

theorem lesson_branching_forks_by_value_witness:
  "map_of (branches (repo (sys main_only))) ''main'' =
     Some \<lparr>bname = ''main'', commits = 0, is_current = True\<rparr>
   \<and> commits \<lparr>bname = ''main'', commits = 0, is_current = True\<rparr> < next_addr (env main_only)
   \<and> 0 < speed (animator (sys main_only))
   \<and> 0 \<le> delay (animator (sys main_only))
   \<and> current_branch (repo (sys main_only)) = ''main''
   \<and> heap (env main_only) 0 = [first_commit]
   \<and> fst (lesson_branching main_only) = Inr ()
   \<and> heap (env (snd (lesson_branching main_only))) 0 = [first_commit]
   \<and> take 1 (heap (env (snd (lesson_branching main_only))) 1) = [first_commit]
   \<and> map message (heap (env (snd (lesson_branching main_only))) 1) =
       [''Initial commit'', ''Add login functionality'', ''Add password validation'']"
  using lesson_branching_forks_by_value
    [of main_only "\<lparr>bname = ''main'', commits = 0, is_current = True\<rparr>"]
  by (simp add: main_only_def GitRepository_def default_animator_def start_world_def Let_def
      Commit_def first_commit_def)

subsection \<open>The frames of the progress bar\<close>

lemma frame_text_content:
  "frame_text description p =
     cr @ Color_CYAN @ description @ '': '' @ Color_GREEN @ ''[''
     @ concat (replicate (nat (trunc (fl (30 * p)))) glyph_full)
     @ concat (replicate (nat (30 - trunc (fl (30 * p)))) glyph_light)
     @ ''] '' @ str_int (trunc (fl (p * 100))) @ ''%'' @ Color_END"
  by (simp add: frame_text_def Let_def str_mul_def)

text \<open>
  C9.  For \<open>steps = N > 0\<close> (and a delay that \<open>time.sleep\<close> accepts) the progress bar
  returns normally, having written exactly \<open>N + 1\<close> frames in order, for \<open>i = 0, ..., N\<close>,
  each flushed and followed by the pause, and then a line break.  Frame \<open>i\<close> is the
  carriage return, the description, and a bar of 30 cells of which
  \<open>int(30 * (i / N))\<close> are full and the rest light, followed by the percentage
  \<open>int((i / N) * 100)\<close>, all in double arithmetic.  The first frame is the empty bar with
  \<open>0%\<close> and the last frame the full bar with \<open>100%\<close>.
\<close>

theorem progress_bar_frames:
  assumes "0 < N" and "0 \<le> delay self"
  shows
    "let frame = (\<lambda>i :: int.
           cr @ Color_CYAN @ description @ '': '' @ Color_GREEN @ ''[''
           @ concat (replicate (nat (trunc (fl (30 * fl (of_int i / of_int N))))) glyph_full)
           @ concat (replicate (nat (30 - trunc (fl (30 * fl (of_int i / of_int N)))))
                       glyph_light)
           @ ''] '' @ str_int (trunc (fl (fl (of_int i / of_int N) * 100))) @ ''%''
           @ Color_END)
     in progress_bar self N description w =
          (Inr (), w\<lparr>console := console w @
             concat (map (\<lambda>i. [Write (frame i), Flush, Sleep (delay self)])
                       (py_range (N + 1)))
             @ [Write nl]\<rparr>)
        \<and> length (py_range (N + 1)) = nat N + 1
        \<and> (\<forall>k < nat N + 1. py_range (N + 1) ! k = int k)
        \<and> py_range (N + 1) ! nat N = N
        \<and> frame 0 =
            cr @ Color_CYAN @ description @ '': '' @ Color_GREEN @ ''[''
            @ concat (replicate 30 glyph_light) @ ''] 0%'' @ Color_END
        \<and> frame N =
            cr @ Color_CYAN @ description @ '': '' @ Color_GREEN @ ''[''
            @ concat (replicate 30 glyph_full) @ ''] 100%'' @ Color_END"
proof -
  have q: "of_int N / of_int N = (1 :: rat)" using assms(1) by simp
  have len: "length (py_range (N + 1)) = nat N + 1"
    using assms(1) by (simp add: py_range_def nat_add_distrib)
  have e: "nat (N + 1) = nat N + 1" using assms(1) by simp
  have nth: "\<forall>k < nat N + 1. py_range (N + 1) ! k = int k"
    unfolding py_range_def e by (simp del: upt_Suc)
  have last: "py_range (N + 1) ! nat N = N"
    using assms(1) by (simp add: py_range_def nat_add_distrib nth_append)
  have a: "trunc (fl 30) = 30" by code_simp
  have b: "trunc (fl 100) = 100" by code_simp
  have c: "str_int 100 = ''100''" by code_simp
  have z: "trunc 0 = 0" by (simp add: trunc_def)
  have run: "progress_bar self N description w =
          (Inr (), w\<lparr>console := console w @
             concat (map (\<lambda>i. [Write (cr @ Color_CYAN @ description @ '': '' @ Color_GREEN @ ''[''
           @ concat (replicate (nat (trunc (fl (30 * fl (of_int i / of_int N))))) glyph_full)
           @ concat (replicate (nat (30 - trunc (fl (30 * fl (of_int i / of_int N)))))
                       glyph_light)
           @ ''] '' @ str_int (trunc (fl (fl (of_int i / of_int N) * 100))) @ ''%''
           @ Color_END), Flush, Sleep (delay self)])
                       (py_range (N + 1)))
             @ [Write nl]\<rparr>)"
    using progress_bar_run [OF assms, of description w]
    by (simp only: frame_text_content)
  have f0: "cr @ Color_CYAN @ description @ '': '' @ Color_GREEN @ ''[''
           @ concat (replicate (nat (trunc (fl (30 * fl (of_int (0 :: int) / of_int N)))))
                       glyph_full)
           @ concat (replicate (nat (30 - trunc (fl (30 * fl (of_int (0 :: int) / of_int N)))))
                       glyph_light)
           @ ''] '' @ str_int (trunc (fl (fl (of_int (0 :: int) / of_int N) * 100))) @ ''%''
           @ Color_END =
         cr @ Color_CYAN @ description @ '': '' @ Color_GREEN @ ''[''
            @ concat (replicate 30 glyph_light) @ ''] 0%'' @ Color_END"
    by (simp add: fl_zero z str_int_0)
  have fN: "cr @ Color_CYAN @ description @ '': '' @ Color_GREEN @ ''[''
           @ concat (replicate (nat (trunc (fl (30 * fl (of_int N / of_int N))))) glyph_full)
           @ concat (replicate (nat (30 - trunc (fl (30 * fl (of_int N / of_int N)))))
                       glyph_light)
           @ ''] '' @ str_int (trunc (fl (fl (of_int N / of_int N) * 100))) @ ''%''
           @ Color_END =
         cr @ Color_CYAN @ description @ '': '' @ Color_GREEN @ ''[''
            @ concat (replicate 30 glyph_full) @ ''] 100%'' @ Color_END"
    unfolding q by (simp add: fl_one a b c)
  show ?thesis
    unfolding Let_def
    using run len nth last f0 fN by blast
qed

lemma py_range_3: "py_range 3 = [0, 1, 2]"
  by (simp add: py_range_def upt_rec)

theorem progress_bar_frames_witness:
  "(0 :: int) < 2 \<and> (0 :: rat) \<le> delay default_animator
   \<and> progress_bar default_animator 2 ''x'' start_world =
       (Inr (), start_world\<lparr>console :=
          [Write (cr @ Color_CYAN @ ''x: '' @ Color_GREEN @ ''[''
                  @ concat (replicate 30 glyph_light) @ ''] 0%'' @ Color_END),
           Flush, Sleep (1 / 2),
           Write (cr @ Color_CYAN @ ''x: '' @ Color_GREEN @ ''[''
                  @ concat (replicate 15 glyph_full) @ concat (replicate 15 glyph_light)
                  @ ''] 50%'' @ Color_END),
           Flush, Sleep (1 / 2),
           Write (cr @ Color_CYAN @ ''x: '' @ Color_GREEN @ ''[''
                  @ concat (replicate 30 glyph_full) @ ''] 100%'' @ Color_END),
           Flush, Sleep (1 / 2),
           Write nl]\<rparr>)"
proof -
  have h: "fl (1 / 2) = 1 / 2" by code_simp
  have a: "trunc (fl 15) = 15" "trunc (fl 50) = 50" "trunc (fl 30) = 30" "trunc (fl 100) = 100"
    by code_simp+
  have s: "str_int 50 = ''50''" "str_int 100 = ''100''" "str_int 0 = ''0''"
    by code_simp+
  have z: "trunc 0 = 0" by (simp add: trunc_def)
  show ?thesis
    using progress_bar_frames [of 2 default_animator "''x''" start_world]
    by (simp add: Let_def default_animator_def start_world_def py_range_3 h a s z fl_zero fl_one)
qed

end
